theory Spec2Isabelle
  imports Complex_Main
begin

section \<open>JavaScript numbers\<close>

text \<open>
  A JavaScript number is an IEEE-754 double: \<^verbatim>\<open>NaN\<close>, one of the two infinities, or a
  finite value. Every finite double is a rational number, so a finite value is given by
  its exact value, and arithmetic rounds its result to a double (see \<open>to_double\<close>
  below). The tests the pages make on numbers (\<^verbatim>\<open>isNaN\<close>, \<^verbatim>\<open><\<close>, \<^verbatim>\<open>>\<close>,
  \<^verbatim>\<open>!==\<close>, truthiness, \<^verbatim>\<open>Math.round\<close>) are exact on doubles, and are modelled exactly.
  The sign of zero is not modelled: \<^verbatim>\<open>-0\<close> and \<^verbatim>\<open>0\<close> compare equal and are both falsy.
  The form's \<^verbatim>\<open>amount\<close> has no default value and is \<^verbatim>\<open>undefined\<close> until the first
  effect has run; every use of it converts \<^verbatim>\<open>undefined\<close> to \<^verbatim>\<open>NaN\<close>
  (\<^verbatim>\<open>isNaN(undefined)\<close> is true, arithmetic on it gives \<^verbatim>\<open>NaN\<close>), so it is \<open>NaN\<close> here.
\<close>

datatype number = NaN | Finite real | PosInfinity | NegInfinity

fun isNaN :: "number \<Rightarrow> bool" where
  "isNaN NaN = True"
| "isNaN (Finite x) = False"
| "isNaN PosInfinity = False"
| "isNaN NegInfinity = False"

text \<open>Truthiness of a number: \<^verbatim>\<open>NaN\<close> and zero are falsy.\<close>

fun truthy :: "number \<Rightarrow> bool" where
  "truthy NaN = False"
| "truthy (Finite x) = (x \<noteq> 0)"
| "truthy PosInfinity = True"
| "truthy NegInfinity = True"

text \<open>\<^verbatim>\<open>a < b\<close>: false when either side is \<^verbatim>\<open>NaN\<close>. \<^verbatim>\<open>a > b\<close> is \<open>num_less b a\<close>.\<close>

fun num_less :: "number \<Rightarrow> number \<Rightarrow> bool" where
  "num_less NaN b = False"
| "num_less a NaN = False"
| "num_less (Finite x) (Finite y) = (x < y)"
| "num_less (Finite x) PosInfinity = True"
| "num_less (Finite x) NegInfinity = False"
| "num_less PosInfinity b = False"
| "num_less NegInfinity (Finite y) = True"
| "num_less NegInfinity PosInfinity = True"
| "num_less NegInfinity NegInfinity = False"

text \<open>\<^verbatim>\<open>a <= b\<close>, used to state bounds.\<close>

definition num_le :: "number \<Rightarrow> number \<Rightarrow> bool" where
  "num_le a b = (\<not> isNaN a \<and> \<not> isNaN b \<and> \<not> num_less b a)"

text \<open>\<^verbatim>\<open>a === b\<close> on numbers: \<^verbatim>\<open>NaN\<close> equals nothing, itself included.\<close>

definition strict_eq :: "number \<Rightarrow> number \<Rightarrow> bool" where
  "strict_eq a b = (\<not> isNaN a \<and> \<not> isNaN b \<and> a = b)"

text \<open>
  \<^verbatim>\<open>Math.round\<close>: the nearest integer, a tie going up; \<^verbatim>\<open>NaN\<close> and the infinities are
  returned as they are.
\<close>

fun Math_round :: "number \<Rightarrow> number" where
  "Math_round (Finite x) = Finite (of_int \<lfloor>x + 1 / 2\<rfloor>)"
| "Math_round NaN = NaN"
| "Math_round PosInfinity = PosInfinity"
| "Math_round NegInfinity = NegInfinity"

text \<open>\<^verbatim>\<open>Math.max\<close> of two numbers: \<^verbatim>\<open>NaN\<close> when either is.\<close>

definition Math_max :: "number \<Rightarrow> number \<Rightarrow> number" where
  "Math_max a b = (if isNaN a \<or> isNaN b then NaN else if num_less a b then b else a)"

text \<open>
  The double nearest to a real number (binary64, rounding to nearest, a tie going to the
  even significand). \<open>binary_exponent a\<close> is the exponent \<open>e\<close> with \<open>2 ^ e \<le> a < 2 ^ (e + 1)\<close>,
  found from the bit length of the integer part of \<open>a\<close>, or of \<open>1 / a\<close> when \<open>a < 1\<close>.
  A double has 53 significant bits, so its last place is worth \<open>2 ^ (e - 52)\<close>; below
  \<open>2 ^ - 1022\<close> (subnormal numbers) the last place stays at \<open>2 ^ - 1074\<close>. A magnitude that
  rounds to \<open>2 ^ 1024\<close> or more overflows to an infinity.
\<close>

fun bit_length :: "nat \<Rightarrow> nat" where
  "bit_length n = (if n = 0 then 0 else Suc (bit_length (n div 2)))"

declare bit_length.simps [simp del]

definition binary_exponent :: "real \<Rightarrow> int" where
  "binary_exponent a =
     (if 1 \<le> a then int (bit_length (nat \<lfloor>a\<rfloor>)) - 1
      else - int (bit_length (nat (\<lceil>1 / a\<rceil> - 1))))"

definition pow2 :: "int \<Rightarrow> real" where
  "pow2 e = (if 0 \<le> e then 2 ^ nat e else 1 / 2 ^ nat (- e))"

definition round_half_even :: "real \<Rightarrow> int" where
  "round_half_even q =
     (if q - of_int \<lfloor>q\<rfloor> < 1 / 2 then \<lfloor>q\<rfloor>
      else if 1 / 2 < q - of_int \<lfloor>q\<rfloor> then \<lfloor>q\<rfloor> + 1
      else if even \<lfloor>q\<rfloor> then \<lfloor>q\<rfloor> else \<lfloor>q\<rfloor> + 1)"

definition double_magnitude :: "real \<Rightarrow> real" where
  "double_magnitude a =
     of_int (round_half_even (a / pow2 (max (binary_exponent a) (- 1022) - 52))) *
     pow2 (max (binary_exponent a) (- 1022) - 52)"

definition to_double :: "real \<Rightarrow> number" where
  "to_double x =
     (if x = 0 then Finite 0
      else if pow2 1024 \<le> double_magnitude \<bar>x\<bar>
      then (if 0 < x then PosInfinity else NegInfinity)
      else Finite (if 0 < x then double_magnitude x else - double_magnitude (- x)))"

text \<open>
  Multiplication and division, with the special cases of IEEE-754 (an infinity times zero,
  a quotient of infinities and zero over zero are \<^verbatim>\<open>NaN\<close>; a non-zero value over zero is
  an infinity). On finite values the result is the exact product or quotient rounded to
  the nearest double.
\<close>

definition infinity_of_sign :: "real \<Rightarrow> number" where
  "infinity_of_sign s = (if s = 0 then NaN else if 0 < s then PosInfinity else NegInfinity)"

fun num_times :: "number \<Rightarrow> number \<Rightarrow> number" where
  "num_times NaN b = NaN"
| "num_times a NaN = NaN"
| "num_times (Finite x) (Finite y) = to_double (x * y)"
| "num_times (Finite x) PosInfinity = infinity_of_sign x"
| "num_times (Finite x) NegInfinity = infinity_of_sign (- x)"
| "num_times PosInfinity (Finite y) = infinity_of_sign y"
| "num_times NegInfinity (Finite y) = infinity_of_sign (- y)"
| "num_times PosInfinity PosInfinity = PosInfinity"
| "num_times PosInfinity NegInfinity = NegInfinity"
| "num_times NegInfinity PosInfinity = NegInfinity"
| "num_times NegInfinity NegInfinity = PosInfinity"

fun num_divide :: "number \<Rightarrow> number \<Rightarrow> number" where
  "num_divide NaN b = NaN"
| "num_divide a NaN = NaN"
| "num_divide (Finite x) (Finite y) = (if y = 0 then infinity_of_sign x else to_double (x / y))"
| "num_divide (Finite x) PosInfinity = Finite 0"
| "num_divide (Finite x) NegInfinity = Finite 0"
| "num_divide PosInfinity (Finite y) = (if 0 \<le> y then PosInfinity else NegInfinity)"
| "num_divide NegInfinity (Finite y) = (if 0 \<le> y then NegInfinity else PosInfinity)"
| "num_divide PosInfinity PosInfinity = NaN"
| "num_divide PosInfinity NegInfinity = NaN"
| "num_divide NegInfinity PosInfinity = NaN"
| "num_divide NegInfinity NegInfinity = NaN"

section \<open>Requests and side effects\<close>

text \<open>
  \<^verbatim>\<open>JSON.stringify\<close> writes an object as its members in the order of the object
  literal, leaving out a member whose value is \<^verbatim>\<open>undefined\<close>; a number that is
  \<^verbatim>\<open>NaN\<close> or infinite is written \<^verbatim>\<open>null\<close>. The body of a request is kept as the JSON
  value that the text denotes. \<open>JDate d\<close> stands for what a \<^verbatim>\<open>Date\<close> is written as (the
  string of its \<^verbatim>\<open>toISOString()\<close>).
\<close>

datatype date = Date int | Invalid_Date

datatype json = JNull | JNumber real | JString string | JDate date | JObject "(string \<times> json) list"

fun number_toJSON :: "number \<Rightarrow> json" where
  "number_toJSON (Finite x) = JNumber x"
| "number_toJSON NaN = JNull"
| "number_toJSON PosInfinity = JNull"
| "number_toJSON NegInfinity = JNull"

fun member_keys :: "json \<Rightarrow> string list" where
  "member_keys (JObject members) = map fst members"
| "member_keys JNull = []"
| "member_keys (JNumber x) = []"
| "member_keys (JString s) = []"
| "member_keys (JDate d) = []"

fun member_value :: "json \<Rightarrow> string \<Rightarrow> json option" where
  "member_value (JObject members) k = map_of members k"
| "member_value JNull k = None"
| "member_value (JNumber x) k = None"
| "member_value (JString s) k = None"
| "member_value (JDate d) k = None"

text \<open>
  What \<^verbatim>\<open>await fetch(...)\<close> gives: a response with its \<^verbatim>\<open>ok\<close> flag and
  \<^verbatim>\<open>statusText\<close>, or a rejection (the request could not be made: fetch throws).
\<close>

datatype fetch_result = Response bool string | Rejected

text \<open>
  The side effects of the two pages, recorded in the order the code performs them:
  \<^verbatim>\<open>setClaimed\<close>, \<^verbatim>\<open>setSubmitting\<close>, a \<^verbatim>\<open>fetch\<close> with method POST (URL and body),
  \<^verbatim>\<open>alert\<close>, \<^verbatim>\<open>mutatePublicTip()\<close>, \<^verbatim>\<open>toast.success\<close>, \<^verbatim>\<open>toast.error\<close>,
  \<^verbatim>\<open>console.error\<close> and \<^verbatim>\<open>router.push\<close>.
\<close>

datatype action =
    SetClaimed bool
  | SetSubmitting bool
  | Fetch_POST string json
  | Alert string
  | MutatePublicTip
  | Toast_success string
  | Toast_error string
  | Console_error
  | Router_push string

fun is_request :: "action \<Rightarrow> bool" where
  "is_request (Fetch_POST url body) = True"
| "is_request (SetClaimed b) = False"
| "is_request (SetSubmitting b) = False"
| "is_request (Alert m) = False"
| "is_request MutatePublicTip = False"
| "is_request (Toast_success m) = False"
| "is_request (Toast_error m) = False"
| "is_request Console_error = False"
| "is_request (Router_push url) = False"


fun is_navigation :: "action \<Rightarrow> bool" where
  "is_navigation (Router_push url) = True"
| "is_navigation (SetClaimed b) = False"
| "is_navigation (SetSubmitting b) = False"
| "is_navigation (Fetch_POST url body) = False"
| "is_navigation (Alert m) = False"
| "is_navigation MutatePublicTip = False"
| "is_navigation (Toast_success m) = False"
| "is_navigation (Toast_error m) = False"
| "is_navigation Console_error = False"

section \<open>What the pages import\<close>

text \<open>
  The new-tip page imports constants from \<^verbatim>\<open>lib/constants\<close> and \<^verbatim>\<open>lib/Routes\<close> and
  three functions from \<^verbatim>\<open>lib/utils\<close>. None of these files is among the sources, so
  the page is modelled for any values of them: they are the fields of \<open>lib\<close>.
\<close>

record lib =
  MIN_TIP_SATS :: number
  MAX_TIP_SATS :: number
  FEE_PERCENT :: number
  MINIMUM_FEE_SATS :: number
  Routes_tips :: string
  getSatsAmount :: "number \<Rightarrow> number \<Rightarrow> number"
  getFiatAmount :: "number \<Rightarrow> number \<Rightarrow> number"
  calculateFee :: "number \<Rightarrow> number"

datatype ExpiryUnit = minutes | hours | days

text \<open>
  What the page uses of the language and of \<^verbatim>\<open>date-fns\<close>: \<^verbatim>\<open>parseFloat\<close>, the
  conversion of a number to a string (\<^verbatim>\<open>.toString()\<close>, and \<^verbatim>\<open>+\<close> with a string), and
  \<^verbatim>\<open>add(date, {[unit]: n})\<close>. The page is modelled for any such functions.
\<close>

record js =
  parseFloat :: "string \<Rightarrow> number"
  toString :: "number \<Rightarrow> string"
  date_fns_add :: "date \<Rightarrow> ExpiryUnit \<Rightarrow> number \<Rightarrow> date"

section \<open>The new-tip page (NewTip)\<close>

text \<open>
  The first page of \<^verbatim>\<open>src/unnamed/part_000\<close> (its lines 1 to 439; the line numbers
  below are those of that file) composes a tip: a form, the conversion between a fiat
  amount and satoshis, a preview of the fee, and the submission.
\<close>

text \<open>
  The form's values (\<^verbatim>\<open>NewTipFormData\<close>). \<^verbatim>\<open>note\<close> and \<^verbatim>\<open>tippeeName\<close> have no
  default value: they are \<^verbatim>\<open>undefined\<close> (\<open>None\<close>) until the user types in the field,
  which is why the page reads them with \<^verbatim>\<open>?.\<close>.
\<close>

record NewTipFormData =
  amount :: number
  amountString :: string
  currency :: string
  "note" :: "string option"
  expiresIn :: number
  expiryUnit :: ExpiryUnit
  tippeeName :: "string option"
  tippeeLocale :: string

datatype InputMethod = fiat | sats

text \<open>
  The state a render of the page reads: the two \<^verbatim>\<open>useState\<close> cells, the exchange
  rates of \<^verbatim>\<open>useExchangeRates()\<close> (\<open>None\<close> while they load) and the form's values.
\<close>

record NewTip =
  isSubmitting :: bool
  inputMethod :: InputMethod
  exchangeRates :: "(string \<Rightarrow> number option) option"
  form :: NewTipFormData

text \<open>\<^verbatim>\<open>const watchedExchangeRate = exchangeRates?.[watchedCurrency];\<close>\<close>

definition watchedExchangeRate :: "NewTip \<Rightarrow> number option" where
  "watchedExchangeRate st =
     (case exchangeRates st of
        None \<Rightarrow> None
      | Some rates \<Rightarrow> rates (currency (form st)))"

text \<open>
  The rate as the guards \<^verbatim>\<open>if (watchedExchangeRate)\<close> and
  \<^verbatim>\<open>watchedExchangeRate ? ... : ...\<close> see it: \<open>Some rate\<close> when it is truthy, \<open>None\<close>
  when it is \<^verbatim>\<open>undefined\<close>, zero or \<^verbatim>\<open>NaN\<close>.
\<close>

definition truthy_rate :: "NewTip \<Rightarrow> number option" where
  "truthy_rate st =
     (case watchedExchangeRate st of
        None \<Rightarrow> None
      | Some rate \<Rightarrow> if truthy rate then Some rate else None)"

text \<open>
  Lines 101-107, \<^verbatim>\<open>watchedAmountFee\<close>, and what the fee row prints of it (line 341:
  \<^verbatim>\<open>!isNaN(watchedAmountFee) ? watchedAmountFee : 0\<close>). The row is rendered only
  when the rate is truthy.
\<close>

definition watchedAmountFee :: "lib \<Rightarrow> NewTip \<Rightarrow> number" where
  "watchedAmountFee l st =
     (case truthy_rate st of
        Some rate \<Rightarrow>
          calculateFee l
            (if inputMethod st = fiat then getSatsAmount l (amount (form st)) rate
             else amount (form st))
      | None \<Rightarrow> Finite 0)"

definition displayedFee :: "lib \<Rightarrow> NewTip \<Rightarrow> number" where
  "displayedFee l st =
     (if \<not> isNaN (watchedAmountFee l st) then watchedAmountFee l st else Finite 0)"

text \<open>
  Lines 109-114, the effect on \<^verbatim>\<open>watchedAmountString\<close>: the numeric amount is set to
  the parsed text unless the parse is \<^verbatim>\<open>NaN\<close>.
\<close>

definition useEffect_amountString :: "js \<Rightarrow> NewTip \<Rightarrow> NewTip" where
  "useEffect_amountString j st =
     (let parsedValue = parseFloat j (amountString (form st))
      in if \<not> isNaN parsedValue
         then st\<lparr>form := (form st)\<lparr>amount := parsedValue\<rparr>\<rparr>
         else st)"

text \<open>
  The user edits the amount field: the controlled input stores the text in
  \<^verbatim>\<open>amountString\<close>, the page renders again and the effect runs on the new text.
\<close>

definition change_amountString :: "js \<Rightarrow> string \<Rightarrow> NewTip \<Rightarrow> NewTip" where
  "change_amountString j text st =
     useEffect_amountString j (st\<lparr>form := (form st)\<lparr>amountString := text\<rparr>\<rparr>)"

text \<open>
  Lines 116-129, \<^verbatim>\<open>toggleInputMethod\<close>: with a truthy rate, the input mode flips and
  \<^verbatim>\<open>amountString\<close> becomes the amount in the other unit, as a string; without one,
  nothing is done.
\<close>

definition toggleInputMethod :: "lib \<Rightarrow> js \<Rightarrow> NewTip \<Rightarrow> NewTip" where
  "toggleInputMethod l j st =
     (case truthy_rate st of
        Some rate \<Rightarrow>
          st\<lparr>inputMethod := (if inputMethod st = fiat then sats else fiat),
             form := (form st)\<lparr>amountString :=
               toString j
                 (if inputMethod st = fiat
                  then getSatsAmount l (amount (form st)) rate
                  else num_divide
                         (Math_round
                            (num_times (getFiatAmount l (amount (form st)) rate) (Finite 100)))
                         (Finite 100))\<rparr>\<rparr>
      | None \<Rightarrow> st)"


text \<open>
  Lines 191-200, the request object. \<^verbatim>\<open>data.note?.length ? data.note : undefined\<close>
  keeps a note that is a non-empty string; \<open>now\<close> is \<^verbatim>\<open>new Date()\<close>.
\<close>

record CreateTipRequest =
  createTipRequest_amount :: number
  createTipRequest_currency :: string
  createTipRequest_note :: "string option"
  createTipRequest_expiry :: date
  createTipRequest_tippeeName :: "string option"
  createTipRequest_tippeeLocale :: string

definition nonempty :: "string option \<Rightarrow> string option" where
  "nonempty field =
     (case field of
        None \<Rightarrow> None
      | Some text \<Rightarrow> if length text \<noteq> 0 then Some text else None)"

definition createTipRequest :: "js \<Rightarrow> date \<Rightarrow> number \<Rightarrow> NewTipFormData \<Rightarrow> CreateTipRequest" where
  "createTipRequest j now satsAmount data =
     \<lparr>createTipRequest_amount = satsAmount,
      createTipRequest_currency = currency data,
      createTipRequest_note = nonempty (note data),
      createTipRequest_expiry = date_fns_add j now (expiryUnit data) (expiresIn data),
      createTipRequest_tippeeName = nonempty (tippeeName data),
      createTipRequest_tippeeLocale = tippeeLocale data\<rparr>"

definition optional_member :: "string \<Rightarrow> string option \<Rightarrow> (string \<times> json) list" where
  "optional_member key field =
     (case field of
        None \<Rightarrow> []
      | Some text \<Rightarrow> [(key, JString text)])"

definition JSON_stringify :: "CreateTipRequest \<Rightarrow> json" where
  "JSON_stringify request =
     JObject
       ([(''amount'', number_toJSON (createTipRequest_amount request)),
         (''currency'', JString (createTipRequest_currency request))] @
        optional_member ''note'' (createTipRequest_note request) @
        [(''expiry'', JDate (createTipRequest_expiry request))] @
        optional_member ''tippeeName'' (createTipRequest_tippeeName request) @
        [(''tippeeLocale'', JString (createTipRequest_tippeeLocale request))])"

text \<open>
  Lines 189-219, the async function that \<^verbatim>\<open>onSubmit\<close> starts after its checks, as the
  list of its side effects. \<open>result\<close> is what \<^verbatim>\<open>await fetch(...)\<close> gives, and
  \<open>tip_id\<close> what \<^verbatim>\<open>(await result.json()).id\<close> gives when the response is \<^verbatim>\<open>ok\<close>:
  \<open>None\<close> when reading the body throws. Whatever is thrown inside \<^verbatim>\<open>try\<close> goes to
  the \<^verbatim>\<open>catch\<close>, and \<^verbatim>\<open>setSubmitting(false)\<close> follows the \<^verbatim>\<open>try\<close> statement.
\<close>

definition submission ::
  "lib \<Rightarrow> js \<Rightarrow> date \<Rightarrow> fetch_result \<Rightarrow> string option \<Rightarrow> number \<Rightarrow> NewTipFormData \<Rightarrow>
     action list" where
  "submission l j now result tip_id satsAmount data =
     [Fetch_POST ''/api/tipper/tips'' (JSON_stringify (createTipRequest j now satsAmount data))] @
     (case result of
        Rejected \<Rightarrow>
          [Console_error, Toast_error ''Tip creation failed. Please try again.'']
      | Response ok statusText \<Rightarrow>
          if ok
          then Toast_success ''Tip created'' #
               (case tip_id of
                  None \<Rightarrow> [Console_error, Toast_error ''Tip creation failed. Please try again.'']
                | Some i \<Rightarrow> [Router_push (Routes_tips l @ ''/'' @ i)])
          else [Toast_error (''Failed to create tip: '' @ statusText)]) @
     [SetSubmitting False]"

text \<open>
  Lines 159-222, \<^verbatim>\<open>onSubmit\<close>. A \<^verbatim>\<open>throw new Error(m)\<close> is \<open>Inl m\<close>: it leaves the
  function before any side effect. Otherwise the result is \<open>Inr\<close> of the side effects in
  order: \<^verbatim>\<open>setSubmitting(true)\<close>, then those of the async function.
\<close>

definition onSubmit ::
  "lib \<Rightarrow> js \<Rightarrow> date \<Rightarrow> fetch_result \<Rightarrow> string option \<Rightarrow> NewTip \<Rightarrow> NewTipFormData \<Rightarrow>
     string + action list" where
  "onSubmit l j now result tip_id st data =
     (case truthy_rate st of
        None \<Rightarrow> Inl ''Exchange rates not loaded''
      | Some rate \<Rightarrow>
          if isSubmitting st then Inl ''Already submitting''
          else
            let satsAmount =
                  (if inputMethod st = fiat then getSatsAmount l (amount data) rate
                   else amount data)
            in if isNaN satsAmount then Inl ''Invalid tip amount''
               else if num_less satsAmount (MIN_TIP_SATS l) then Inl ''Tip amount is too small''
               else if num_less (MAX_TIP_SATS l) satsAmount
               then Inl (''Tip amount is too large. Please use a value no more than '' @
                         toString j (MAX_TIP_SATS l) @ '' satoshis'')
               else if \<not> strict_eq (Math_round satsAmount) satsAmount
               then Inl ''sat amount must be a whole value''
               else Inr (SetSubmitting True #
                         submission l j now result tip_id satsAmount data))"

text \<open>The side effects a call of \<^verbatim>\<open>onSubmit\<close> performed: none when it threw.\<close>

definition effects :: "string + action list \<Rightarrow> action list" where
  "effects outcome = (case outcome of Inl message \<Rightarrow> [] | Inr acts \<Rightarrow> acts)"

text \<open>
  The state after a list of side effects: \<^verbatim>\<open>setSubmitting\<close> writes the flag that the
  submit button reads (\<^verbatim>\<open>disabled={isSubmitting}\<close>); no other effect touches the
  page's state.
\<close>

fun perform :: "NewTip \<Rightarrow> action \<Rightarrow> NewTip" where
  "perform st (SetSubmitting b) = st\<lparr>isSubmitting := b\<rparr>"
| "perform st (SetClaimed b) = st"
| "perform st (Fetch_POST url body) = st"
| "perform st (Alert m) = st"
| "perform st MutatePublicTip = st"
| "perform st (Toast_success m) = st"
| "perform st (Toast_error m) = st"
| "perform st Console_error = st"
| "perform st (Router_push url) = st"

text \<open>
  The preconditions of a submission as a list: six checks in order, each with the message
  of the error raised when it fails. The first is that the rate of the selected currency
  is usable (loaded and truthy). The amount checked is the one in base units: the form's
  amount in base-unit mode, its conversion in fiat mode (no amount is computed without a
  rate, which the first check covers). A comparison is written as the code makes it,
  \<open>\<not> num_less a b\<close> for "a is at least b": the two agree whenever neither side is
  \<^verbatim>\<open>NaN\<close>.
\<close>

definition submitted_satsAmount :: "lib \<Rightarrow> NewTip \<Rightarrow> NewTipFormData \<Rightarrow> number" where
  "submitted_satsAmount l st data =
     (case truthy_rate st of
        None \<Rightarrow> NaN
      | Some rate \<Rightarrow>
          if inputMethod st = fiat then getSatsAmount l (amount data) rate else amount data)"

definition preconditions ::
  "lib \<Rightarrow> js \<Rightarrow> NewTip \<Rightarrow> NewTipFormData \<Rightarrow> (bool \<times> string) list" where
  "preconditions l j st data =
     [(truthy_rate st \<noteq> None, ''Exchange rates not loaded''),
      (\<not> isSubmitting st, ''Already submitting''),
      (\<not> isNaN (submitted_satsAmount l st data), ''Invalid tip amount''),
      (\<not> num_less (submitted_satsAmount l st data) (MIN_TIP_SATS l), ''Tip amount is too small''),
      (\<not> num_less (MAX_TIP_SATS l) (submitted_satsAmount l st data),
       ''Tip amount is too large. Please use a value no more than '' @
       toString j (MAX_TIP_SATS l) @ '' satoshis''),
      (strict_eq (Math_round (submitted_satsAmount l st data)) (submitted_satsAmount l st data),
       ''sat amount must be a whole value'')]"

text \<open>
  The same list in the words of the specification, whose first check is that the rate
  table is loaded. The amount in base units is then the form's amount in base-unit mode;
  in fiat mode it is the conversion at the rate found in the table, and \<^verbatim>\<open>NaN\<close> when
  the table has no rate for the currency (arithmetic on \<^verbatim>\<open>undefined\<close>).
\<close>

definition spec_satsAmount :: "lib \<Rightarrow> NewTip \<Rightarrow> NewTipFormData \<Rightarrow> number" where
  "spec_satsAmount l st data =
     (if inputMethod st = fiat
      then (case watchedExchangeRate st of
              None \<Rightarrow> NaN
            | Some rate \<Rightarrow> getSatsAmount l (amount data) rate)
      else amount data)"

definition spec_preconditions ::
  "lib \<Rightarrow> js \<Rightarrow> NewTip \<Rightarrow> NewTipFormData \<Rightarrow> (bool \<times> string) list" where
  "spec_preconditions l j st data =
     [(exchangeRates st \<noteq> None, ''Exchange rates not loaded''),
      (\<not> isSubmitting st, ''Already submitting''),
      (\<not> isNaN (spec_satsAmount l st data), ''Invalid tip amount''),
      (\<not> num_less (spec_satsAmount l st data) (MIN_TIP_SATS l), ''Tip amount is too small''),
      (\<not> num_less (MAX_TIP_SATS l) (spec_satsAmount l st data),
       ''Tip amount is too large. Please use a value no more than '' @
       toString j (MAX_TIP_SATS l) @ '' satoshis''),
      (strict_eq (Math_round (spec_satsAmount l st data)) (spec_satsAmount l st data),
       ''sat amount must be a whole value'')]"

fun first_failure :: "(bool \<times> string) list \<Rightarrow> string option" where
  "first_failure [] = None"
| "first_failure ((holds, message) # rest) =
     (if holds then first_failure rest else Some message)"

section \<open>The claim page (ClaimTipPage)\<close>

text \<open>
  The second page of \<^verbatim>\<open>src/unnamed/part_000\<close> (from its line 440) fetches a tip's public projection
  (\<^verbatim>\<open>PublicTip\<close>, declared in \<^verbatim>\<open>src/unnamed/part_002\<close>) and the viewer's session,
  and claims the tip automatically from a React effect. Fields of \<^verbatim>\<open>publicTip\<close> are
  written \<open>publicTip_f\<close> for the source's \<^verbatim>\<open>publicTip.f\<close>, and \<open>session_user_id\<close> for
  \<^verbatim>\<open>session.user.id\<close>. A value that is \<^verbatim>\<open>undefined\<close> or \<^verbatim>\<open>null\<close> in the source
  (the projection while it loads, the session of a signed-out viewer) is \<open>None\<close>.
\<close>

record PublicTip =
  publicTip_amount :: int
  publicTip_tipperId :: string
  publicTip_tippeeId :: "string option"
  publicTip_currency :: "string option"
  publicTip_note :: "string option"
  publicTip_hasClaimed :: bool
  publicTip_tipper_name :: "string option"
  publicTip_tipper_twitterUsername :: "string option"

record Session =
  session_user_id :: string

text \<open>
  \<^verbatim>\<open>const isTipper = session && publicTip && session.user.id === publicTip.tipperId;\<close>
  \<^verbatim>\<open>const canClaim = publicTip && !publicTip.hasClaimed && session && !isTipper;\<close>
  Both are used only for their truthiness; an object is truthy, \<^verbatim>\<open>undefined\<close> and
  \<^verbatim>\<open>null\<close> are falsy, and \<^verbatim>\<open>&&\<close> stops at the first falsy operand.
\<close>

definition isTipper :: "Session option \<Rightarrow> PublicTip option \<Rightarrow> bool" where
  "isTipper session publicTip =
     (case session of
        None \<Rightarrow> False
      | Some s \<Rightarrow>
          (case publicTip of
             None \<Rightarrow> False
           | Some t \<Rightarrow> session_user_id s = publicTip_tipperId t))"

definition canClaim :: "Session option \<Rightarrow> PublicTip option \<Rightarrow> bool" where
  "canClaim session publicTip =
     (case publicTip of
        None \<Rightarrow> False
      | Some t \<Rightarrow>
          if publicTip_hasClaimed t then False
          else (case session of
                  None \<Rightarrow> False
                | Some s \<Rightarrow> \<not> isTipper session publicTip))"

text \<open>
  The page's own state is the latch \<^verbatim>\<open>const [hasClaimed, setClaimed] = React.useState(false)\<close>.
  The model adds \<open>pending\<close>, the number of claim requests whose promise has not settled,
  so that a response can only arrive for a request that was made.
\<close>

record ClaimTipPage =
  hasClaimed :: bool
  pending :: nat

definition ClaimTipPage_mount :: ClaimTipPage where
  "ClaimTipPage_mount = \<lparr>hasClaimed = False, pending = 0\<rparr>"

definition claim_url :: "string \<Rightarrow> string" where
  "claim_url tipId = ''/api/tippee/tips/'' @ tipId @ ''/claim''"

text \<open>
  The body of the effect (lines 476-497), up to the \<^verbatim>\<open>await\<close>: when \<^verbatim>\<open>canClaim\<close> holds
  and the latch is unset, \<^verbatim>\<open>setClaimed(true)\<close> and then the POST of
  \<^verbatim>\<open>JSON.stringify({})\<close> to the claim endpoint. \<open>tipId\<close> is \<^verbatim>\<open>router.query.id\<close>.
\<close>

definition useEffect_claim ::
  "string \<Rightarrow> Session option \<Rightarrow> PublicTip option \<Rightarrow> ClaimTipPage \<Rightarrow>
     ClaimTipPage \<times> action list" where
  "useEffect_claim tipId session publicTip st =
     (if canClaim session publicTip \<and> \<not> hasClaimed st
      then (st\<lparr>hasClaimed := True, pending := Suc (pending st)\<rparr>,
            [SetClaimed True, Fetch_POST (claim_url tipId) (JObject [])])
      else (st, []))"

text \<open>
  The rest of the async function, after the \<^verbatim>\<open>await\<close>: a response that is not
  \<^verbatim>\<open>ok\<close> raises the alert, an \<^verbatim>\<open>ok\<close> one calls \<^verbatim>\<open>mutatePublicTip()\<close>. The function
  has no \<^verbatim>\<open>try\<close>: when fetch rejects, the rejection leaves it and nothing more runs.
\<close>

definition claim_settled :: "fetch_result \<Rightarrow> action list" where
  "claim_settled result =
     (case result of
        Rejected \<Rightarrow> []
      | Response ok statusText \<Rightarrow>
          if \<not> ok
          then [Alert (''Failed to claim tip: '' @ statusText @
                       ''. Please refresh the page to try again.'')]
          else [MutatePublicTip])"

text \<open>
  One page lifetime is a list of events from the mount on: a render with the session and
  the projection of that moment, after which the effect runs (React runs it when one of
  its dependencies changed; running it after every render only adds runs that do
  nothing), or the settling of a pending request. A state update made by the effect is
  what the next render sees.
\<close>

datatype ClaimTipPage_event =
    Render "Session option" "PublicTip option"
  | Settled fetch_result

fun step ::
  "string \<Rightarrow> ClaimTipPage \<Rightarrow> ClaimTipPage_event \<Rightarrow> ClaimTipPage \<times> action list" where
  "step tipId st (Render session publicTip) = useEffect_claim tipId session publicTip st"
| "step tipId st (Settled result) =
     (if pending st = 0 then (st, [])
      else (st\<lparr>pending := pending st - 1\<rparr>, claim_settled result))"

fun run ::
  "string \<Rightarrow> ClaimTipPage \<Rightarrow> ClaimTipPage_event list \<Rightarrow> ClaimTipPage \<times> action list" where
  "run tipId st [] = (st, [])"
| "run tipId st (e # es) =
     (case step tipId st e of
        (st1, acts1) \<Rightarrow> (case run tipId st1 es of (st2, acts2) \<Rightarrow> (st2, acts1 @ acts2)))"

text \<open>The renders at which the eligibility predicate holds.\<close>

fun eligible :: "ClaimTipPage_event \<Rightarrow> bool" where
  "eligible (Render session publicTip) = canClaim session publicTip"
| "eligible (Settled result) = False"

text \<open>
  The renders at which the viewer is the tip's creator: session and projection are there
  and \<^verbatim>\<open>session.user.id === publicTip.tipperId\<close>.
\<close>

fun viewer_is_tipper :: "ClaimTipPage_event \<Rightarrow> bool" where
  "viewer_is_tipper (Render session publicTip) =
     (case session of
        None \<Rightarrow> False
      | Some s \<Rightarrow>
          (case publicTip of
             None \<Rightarrow> False
           | Some t \<Rightarrow> session_user_id s = publicTip_tipperId t))"
| "viewer_is_tipper (Settled result) = False"

fun is_render :: "ClaimTipPage_event \<Rightarrow> bool" where
  "is_render (Render session publicTip) = True"
| "is_render (Settled result) = False"

section \<open>The functions of lib/utils, from the specification\<close>

text \<open>
  Modelled from the spec: \<^verbatim>\<open>getSatsAmount\<close> of \<^verbatim>\<open>lib/utils\<close>, which is not among the
  sources. The specification gives it as \<^verbatim>\<open>toBaseUnits(fiatAmount, rate)\<close>, the
  quotient \<^verbatim>\<open>fiatAmount / rate\<close>.
\<close>

definition spec_getSatsAmount :: "number \<Rightarrow> number \<Rightarrow> number" where
  "spec_getSatsAmount fiatAmount rate = num_divide fiatAmount rate"

text \<open>
  Modelled from the spec: \<^verbatim>\<open>getFiatAmount\<close> of \<^verbatim>\<open>lib/utils\<close>, which is not among the
  sources. The specification gives it as \<^verbatim>\<open>toFiat(baseAmount, rate)\<close>, the product
  \<^verbatim>\<open>baseAmount * rate\<close>.
\<close>

definition spec_getFiatAmount :: "number \<Rightarrow> number \<Rightarrow> number" where
  "spec_getFiatAmount baseAmount rate = num_times baseAmount rate"

text \<open>
  Modelled from the spec: \<^verbatim>\<open>calculateFee\<close> of \<^verbatim>\<open>lib/utils\<close>, which is not among the
  sources. The specification gives it as \<^verbatim>\<open>computeFee(baseAmount)\<close>:
  \<^verbatim>\<open>max(MINIMUM_FEE, baseAmount * FEE_PERCENT / 100)\<close>, rounded to the nearest whole base
  unit. The two constants are arguments.
\<close>

definition spec_calculateFee :: "number \<Rightarrow> number \<Rightarrow> number \<Rightarrow> number" where
  "spec_calculateFee minimum_fee fee_percent baseAmount =
     Math_round
       (Math_max minimum_fee (num_divide (num_times baseAmount fee_percent) (Finite 100)))"


section \<open>Example values\<close>

text \<open>
  Stand-ins for the language's functions, to run the definitions on concrete inputs.
  \<open>decimal\<close> prints a number in plain decimal notation, with at most twenty digits after
  the point (JavaScript prints the shortest digits that read back as the same double, and
  switches to exponent notation for very large and very small values). \<open>parse_decimal\<close>
  reads the longest prefix that is a decimal literal, after leading white space, as
  \<^verbatim>\<open>parseFloat\<close> does, and gives the double nearest to the value of the literal. \<open>add_utc\<close> adds whole
  minutes, hours or days of 24 hours to a date.
\<close>

fun nat_digits :: "nat \<Rightarrow> string" where
  "nat_digits n =
     (if n < 10 then [''0123456789'' ! n]
      else nat_digits (n div 10) @ [''0123456789'' ! (n mod 10)])"

declare nat_digits.simps [simp del]

fun fraction_digits :: "nat \<Rightarrow> real \<Rightarrow> string" where
  "fraction_digits 0 r = []"
| "fraction_digits (Suc k) r =
     (if r = 0 then []
      else (''0123456789'' ! nat \<lfloor>r * 10\<rfloor>) #
           fraction_digits k (r * 10 - of_int \<lfloor>r * 10\<rfloor>))"

definition unsigned_decimal :: "real \<Rightarrow> string" where
  "unsigned_decimal x =
     nat_digits (nat \<lfloor>x\<rfloor>) @
     (if x = of_int \<lfloor>x\<rfloor> then [] else CHR ''.'' # fraction_digits 20 (x - of_int \<lfloor>x\<rfloor>))"

fun decimal :: "number \<Rightarrow> string" where
  "decimal NaN = ''NaN''"
| "decimal PosInfinity = ''Infinity''"
| "decimal NegInfinity = ''-Infinity''"
| "decimal (Finite x) = (if x < 0 then CHR ''-'' # unsigned_decimal (- x) else unsigned_decimal x)"

definition is_digit :: "char \<Rightarrow> bool" where
  "is_digit c = (c \<in> set ''0123456789'')"

definition is_space :: "char \<Rightarrow> bool" where
  "is_space c = (c \<in> {CHR '' '', CHR 0x09, CHR 0x0A, CHR 0x0B, CHR 0x0C, CHR 0x0D})"

definition digits_value :: "string \<Rightarrow> nat" where
  "digits_value ds = foldl (\<lambda>n c. 10 * n + (of_char c - 48)) 0 ds"

fun strip_sign :: "string \<Rightarrow> bool \<times> string" where
  "strip_sign [] = (False, [])"
| "strip_sign (c # cs) =
     (if c = CHR ''-'' then (True, cs)
      else if c = CHR ''+'' then (False, cs)
      else (False, c # cs))"

definition exponent_part :: "string \<Rightarrow> int" where
  "exponent_part s =
     (case s of
        [] \<Rightarrow> 0
      | c # cs \<Rightarrow>
          if c = CHR ''e'' \<or> c = CHR ''E''
          then (case strip_sign cs of
                  (negative, ds) \<Rightarrow>
                    if takeWhile is_digit ds = [] then 0
                    else if negative then - int (digits_value (takeWhile is_digit ds))
                    else int (digits_value (takeWhile is_digit ds)))
          else 0)"

definition scale10 :: "real \<Rightarrow> int \<Rightarrow> real" where
  "scale10 m e = (if 0 \<le> e then m * 10 ^ nat e else m / 10 ^ nat (- e))"

definition parse_decimal :: "string \<Rightarrow> number" where
  "parse_decimal s =
     (case strip_sign (dropWhile is_space s) of
        (negative, t) \<Rightarrow>
          if take 8 t = ''Infinity'' then (if negative then NegInfinity else PosInfinity)
          else
            let int_part = takeWhile is_digit t;
                after_int = dropWhile is_digit t;
                has_point = (after_int \<noteq> [] \<and> hd after_int = CHR ''.'');
                frac_part = (if has_point then takeWhile is_digit (tl after_int) else []);
                after_frac = (if has_point then dropWhile is_digit (tl after_int) else after_int)
            in if int_part = [] \<and> frac_part = [] then NaN
               else
                 let mantissa = real (digits_value int_part) +
                                real (digits_value frac_part) / 10 ^ length frac_part;
                     v = scale10 mantissa (exponent_part after_frac)
                 in to_double (if negative then - v else v))"

fun ms_per :: "ExpiryUnit \<Rightarrow> int" where
  "ms_per minutes = 60000"
| "ms_per hours = 3600000"
| "ms_per days = 86400000"

fun add_utc :: "date \<Rightarrow> ExpiryUnit \<Rightarrow> number \<Rightarrow> date" where
  "add_utc (Date t) unit (Finite n) = Date (t + \<lfloor>n\<rfloor> * ms_per unit)"
| "add_utc (Date t) unit NaN = Invalid_Date"
| "add_utc (Date t) unit PosInfinity = Invalid_Date"
| "add_utc (Date t) unit NegInfinity = Invalid_Date"
| "add_utc Invalid_Date unit n = Invalid_Date"

definition example_js :: js where
  "example_js = \<lparr>parseFloat = parse_decimal, toString = decimal, date_fns_add = add_utc\<rparr>"

text \<open>
  A configuration: tips from 1 to 1000000 satoshis, a fee of 1 percent and at least 10
  satoshis, and the functions of \<^verbatim>\<open>lib/utils\<close> as the specification gives them.
\<close>

definition example_lib :: lib where
  "example_lib =
     \<lparr>MIN_TIP_SATS = Finite 1, MAX_TIP_SATS = Finite 1000000, FEE_PERCENT = Finite 1,
      MINIMUM_FEE_SATS = Finite 10, Routes_tips = ''/tips'',
      getSatsAmount = spec_getSatsAmount, getFiatAmount = spec_getFiatAmount,
      calculateFee = spec_calculateFee (Finite 10) (Finite 1)\<rparr>"

definition example_form :: NewTipFormData where
  "example_form =
     \<lparr>amount = Finite 5000, amountString = ''5000'', currency = ''USD'', note = None,
      expiresIn = Finite 3, expiryUnit = days, tippeeName = Some ''Hal'',
      tippeeLocale = ''en''\<rparr>"

text \<open>The page in base-unit mode, once with the rates loaded and once without.\<close>

definition example_page :: NewTip where
  "example_page =
     \<lparr>isSubmitting = False, inputMethod = sats,
      exchangeRates = Some [''USD'' \<mapsto> Finite (1 / 5000), ''EUR'' \<mapsto> Finite (1 / 4000)],
      form = example_form\<rparr>"

definition example_page_loading :: NewTip where
  "example_page_loading = example_page\<lparr>exchangeRates := None\<rparr>"

text \<open>The page with the rates loaded and a currency that the table does not list.\<close>

definition example_page_unlisted :: NewTip where
  "example_page_unlisted = example_page\<lparr>form := example_form\<lparr>currency := ''GBP''\<rparr>\<rparr>"


text \<open>Sessions, a projection and page lifetimes of the claim page.\<close>

definition alice :: Session where
  "alice = \<lparr>session_user_id = ''alice''\<rparr>"

definition bob :: Session where
  "bob = \<lparr>session_user_id = ''bob''\<rparr>"

definition alices_tip :: PublicTip where
  "alices_tip =
     \<lparr>publicTip_amount = 1000, publicTip_tipperId = ''alice'', publicTip_tippeeId = None,
      publicTip_currency = Some ''USD'', publicTip_note = Some ''Thanks'',
      publicTip_hasClaimed = False, publicTip_tipper_name = Some ''Alice'',
      publicTip_tipper_twitterUsername = None\<rparr>"

definition loading :: "ClaimTipPage_event list" where
  "loading = [Render None None, Render (Some bob) None]"




definition tipper_visits :: "ClaimTipPage_event list" where
  "tipper_visits =
     [Render (Some alice) (Some alices_tip),
      Settled Rejected,
      Render (Some alice) (Some (alices_tip\<lparr>publicTip_hasClaimed := True\<rparr>))]"

section \<open>Arithmetic on doubles\<close>

text \<open>The equations that evaluate \<open>to_double\<close> on a concrete number.\<close>

lemmas double_arith =
  to_double_def double_magnitude_def binary_exponent_def pow2_def round_half_even_def
  bit_length.simps

lemma to_double_not_NaN: "\<not> isNaN (to_double x)"
  by (simp add: to_double_def)

lemma finite_product_not_NaN: "\<not> isNaN (num_times (Finite x) (Finite y))"
  by (simp add: to_double_not_NaN)

lemma quotient_by_finite_not_NaN:
  "\<not> isNaN a \<Longrightarrow> y \<noteq> 0 \<Longrightarrow> \<not> isNaN (num_divide a (Finite y))"
  by (cases a) (simp_all add: to_double_not_NaN)



subsection \<open>The error of one rounding\<close>


lemma pow2_powr: "pow2 e = 2 powr (real_of_int e)"
  by (auto simp: pow2_def powr_realpow [symmetric] powr_minus field_simps)







lemma pow2_strict_mono: "a < b \<Longrightarrow> pow2 a < pow2 b"
  by (simp add: pow2_powr)






subsection \<open>The cents of an amount that was converted and converted back\<close>


section \<open>Evaluating the examples\<close>







section \<open>The claim page: eligibility and the automatic claim\<close>

text \<open>
  C3. The viewer can claim exactly when the projection has loaded, its \<^verbatim>\<open>hasClaimed\<close>
  flag is false, a session exists, and the session's user id differs from the
  projection's \<^verbatim>\<open>tipperId\<close>. The predicate takes the projection and the session only:
  the page's local state has no part in it.
\<close>

theorem canClaim_iff:
  "canClaim session publicTip \<longleftrightarrow>
     (\<exists>t s. publicTip = Some t \<and> \<not> publicTip_hasClaimed t \<and>
            session = Some s \<and> session_user_id s \<noteq> publicTip_tipperId t)"
  by (auto simp: canClaim_def isTipper_def split: option.splits)


subsection \<open>Runs of the page\<close>

lemma run_Cons:
  "run tipId st (e # es) =
     (fst (run tipId (fst (step tipId st e)) es),
      snd (step tipId st e) @ snd (run tipId (fst (step tipId st e)) es))"
  by (simp split: prod.splits)



lemma step_ineligible:
  "\<not> eligible e \<Longrightarrow>
     hasClaimed (fst (step tipId st e)) = hasClaimed st \<and>
     filter is_request (snd (step tipId st e)) = []"
  by (cases e) (auto simp: useEffect_claim_def claim_settled_def split: fetch_result.splits)



text \<open>While no render is eligible, the latch keeps its value and no request is made.\<close>

lemma run_ineligible:
  "\<forall>e\<in>set evs. \<not> eligible e \<Longrightarrow>
     hasClaimed (fst (run tipId st evs)) = hasClaimed st \<and>
     filter is_request (snd (run tipId st evs)) = []"
proof (induction evs arbitrary: st)
  case Nil
  then show ?case by simp
next
  case (Cons e es)
  from Cons.prems have e: "\<not> eligible e" and es: "\<forall>x\<in>set es. \<not> eligible x" by simp_all
  from step_ineligible [OF e, of tipId st] Cons.IH [OF es, of "fst (step tipId st e)"]
  show ?case
    by (simp add: run_Cons del: run.simps(2))
qed










text \<open>
  C4. In a page lifetime in which, at every render, the session's user id equals the
  projection's \<^verbatim>\<open>tipperId\<close>, no request is made: from any state of the page (latch set
  or not) and whatever the projections' \<^verbatim>\<open>hasClaimed\<close> flags are.
\<close>

theorem tipper_never_claims:
  assumes "\<forall>e\<in>set evs. is_render e \<longrightarrow> viewer_is_tipper e"
  shows "filter is_request (snd (run tipId st evs)) = []"
proof -
  have "\<not> eligible e" if "e \<in> set evs" for e
  proof (cases e)
    case (Render session publicTip)
    with assms that have "viewer_is_tipper (Render session publicTip)" by auto
    then show ?thesis
      by (auto simp: Render canClaim_def isTipper_def split: option.splits)
  next
    case (Settled result)
    then show ?thesis by simp
  qed
  then have "\<forall>e\<in>set evs. \<not> eligible e" by blast
  from run_ineligible [OF this] show ?thesis by simp
qed

theorem tipper_never_claims_witness:
  "viewer_is_tipper (Render (Some alice) (Some alices_tip)) \<and>
   viewer_is_tipper (Render (Some alice) (Some (alices_tip\<lparr>publicTip_hasClaimed := True\<rparr>))) \<and>
   \<not> publicTip_hasClaimed alices_tip \<and>
   filter is_request (snd (run ''t1'' ClaimTipPage_mount tipper_visits)) = [] \<and>
   filter is_request (snd (run ''t1'' \<lparr>hasClaimed = True, pending = 1\<rparr> tipper_visits)) = []"
proof -
  have tipper: "\<forall>e\<in>set tipper_visits. is_render e \<longrightarrow> viewer_is_tipper e"
    by (simp add: tipper_visits_def alice_def alices_tip_def)
  from tipper_never_claims [OF tipper, of "''t1''" ClaimTipPage_mount]
    tipper_never_claims [OF tipper, of "''t1''" "\<lparr>hasClaimed = True, pending = 1\<rparr>"]
  show ?thesis
    by (simp add: alice_def alices_tip_def)
qed

section \<open>The new-tip page: validation and submission\<close>

text \<open>Between numbers that are not \<^verbatim>\<open>NaN\<close>, "not less than" is "at least".\<close>

lemma not_less_iff_le:
  "\<not> isNaN a \<Longrightarrow> \<not> isNaN b \<Longrightarrow> (\<not> num_less a b) = num_le b a"
  by (simp add: num_le_def)

text \<open>
  C1. \<^verbatim>\<open>onSubmit\<close> makes six checks in order and throws the error of the first that
  fails: (1) the rate of the selected currency is loaded and truthy (the table is loaded
  and holds a rate for the currency that is neither zero nor \<^verbatim>\<open>NaN\<close>); (2) no submission
  is in flight; (3) the amount in base units is not \<^verbatim>\<open>NaN\<close>; (4) it is not below the
  minimum; (5) it is not above the maximum, the message carrying the maximum; (6) it is a
  whole number. It has then performed no side effect, so no request was made. When every
  check holds it goes on to \<^verbatim>\<open>setSubmitting(true)\<close> and the submission. The six messages
  are pairwise different.
\<close>

theorem onSubmit_preconditions:
  "(case first_failure (preconditions l j st data) of
      Some message \<Rightarrow>
        onSubmit l j now result tip_id st data = Inl message \<and>
        effects (onSubmit l j now result tip_id st data) = []
    | None \<Rightarrow>
        onSubmit l j now result tip_id st data =
          Inr (SetSubmitting True #
               submission l j now result tip_id (submitted_satsAmount l st data) data)) \<and>
   distinct (map snd (preconditions l j st data))"
proof -
  have "distinct (map snd (preconditions l j st data))"
    by (simp add: preconditions_def)
  moreover have "case first_failure (preconditions l j st data) of
      Some message \<Rightarrow>
        onSubmit l j now result tip_id st data = Inl message \<and>
        effects (onSubmit l j now result tip_id st data) = []
    | None \<Rightarrow>
        onSubmit l j now result tip_id st data =
          Inr (SetSubmitting True #
               submission l j now result tip_id (submitted_satsAmount l st data) data)"
    by (cases "truthy_rate st")
       (simp_all add: preconditions_def onSubmit_def submitted_satsAmount_def effects_def Let_def)
  ultimately show ?thesis by simp
qed


text \<open>
  One more than the maximum, one less than the minimum, a fraction of a satoshi, a page
  whose rates have not loaded, and a page whose table does not list the currency.
\<close>

theorem onSubmit_preconditions_witness:
  "first_failure (preconditions example_lib example_js example_page
      (example_form\<lparr>amount := Finite 1000001\<rparr>)) =
     Some ''Tip amount is too large. Please use a value no more than 1000000 satoshis'' \<and>
   onSubmit example_lib example_js (Date 0) (Response True ''OK'') (Some ''42'') example_page
      (example_form\<lparr>amount := Finite 1000001\<rparr>) =
     Inl ''Tip amount is too large. Please use a value no more than 1000000 satoshis'' \<and>
   effects (onSubmit example_lib example_js (Date 0) (Response True ''OK'') (Some ''42'')
      example_page (example_form\<lparr>amount := Finite 1000001\<rparr>)) = [] \<and>
   onSubmit example_lib example_js (Date 0) (Response True ''OK'') (Some ''42'') example_page
      (example_form\<lparr>amount := Finite 0\<rparr>) = Inl ''Tip amount is too small'' \<and>
   onSubmit example_lib example_js (Date 0) (Response True ''OK'') (Some ''42'') example_page
      (example_form\<lparr>amount := Finite (5 / 2)\<rparr>) = Inl ''sat amount must be a whole value'' \<and>
   onSubmit example_lib example_js (Date 0) (Response True ''OK'') (Some ''42'')
      example_page_loading example_form = Inl ''Exchange rates not loaded'' \<and>
   onSubmit example_lib example_js (Date 0) (Response True ''OK'') (Some ''42'')
      example_page_unlisted example_form = Inl ''Exchange rates not loaded''"
proof -
  have rate: "truthy_rate example_page = Some (Finite (1 / 5000))"
    by (simp add: truthy_rate_def watchedExchangeRate_def example_page_def example_form_def)
  have no_rate: "truthy_rate example_page_loading = None"
    by (simp add: truthy_rate_def watchedExchangeRate_def example_page_loading_def)
  have max: "toString example_js (MAX_TIP_SATS example_lib) = ''1000000''"
    by (simp add: example_js_def example_lib_def unsigned_decimal_def nat_digits.simps)
  have large: "first_failure (preconditions example_lib example_js example_page
      (example_form\<lparr>amount := Finite 1000001\<rparr>)) =
     Some ''Tip amount is too large. Please use a value no more than 1000000 satoshis''"
    by (simp add: preconditions_def submitted_satsAmount_def rate max)
       (simp add: example_page_def example_lib_def)
  have small: "first_failure (preconditions example_lib example_js example_page
      (example_form\<lparr>amount := Finite 0\<rparr>)) = Some ''Tip amount is too small''"
    by (simp add: preconditions_def submitted_satsAmount_def rate)
       (simp add: example_page_def example_lib_def)
  have fraction: "first_failure (preconditions example_lib example_js example_page
      (example_form\<lparr>amount := Finite (5 / 2)\<rparr>)) = Some ''sat amount must be a whole value''"
    by (simp add: preconditions_def submitted_satsAmount_def rate)
       (simp add: example_page_def example_lib_def strict_eq_def)
  have loading: "first_failure (preconditions example_lib example_js example_page_loading
      example_form) = Some ''Exchange rates not loaded''"
    by (simp add: preconditions_def no_rate)
  from onSubmit_preconditions [where l = example_lib and j = example_js and st = example_page and
      data = "example_form\<lparr>amount := Finite 1000001\<rparr>" and now = "Date 0" and
      result = "Response True ''OK''" and tip_id = "Some ''42''"]
  have 1: "onSubmit example_lib example_js (Date 0) (Response True ''OK'') (Some ''42'')
      example_page (example_form\<lparr>amount := Finite 1000001\<rparr>) =
     Inl ''Tip amount is too large. Please use a value no more than 1000000 satoshis'' \<and>
   effects (onSubmit example_lib example_js (Date 0) (Response True ''OK'') (Some ''42'')
      example_page (example_form\<lparr>amount := Finite 1000001\<rparr>)) = []"
    by (simp only: large option.case) (simp add: effects_def)
  from onSubmit_preconditions [where l = example_lib and j = example_js and st = example_page and
      data = "example_form\<lparr>amount := Finite 0\<rparr>" and now = "Date 0" and
      result = "Response True ''OK''" and tip_id = "Some ''42''"]
  have 2: "onSubmit example_lib example_js (Date 0) (Response True ''OK'') (Some ''42'')
      example_page (example_form\<lparr>amount := Finite 0\<rparr>) = Inl ''Tip amount is too small''"
    by (simp add: small)
  from onSubmit_preconditions [where l = example_lib and j = example_js and st = example_page and
      data = "example_form\<lparr>amount := Finite (5 / 2)\<rparr>" and now = "Date 0" and
      result = "Response True ''OK''" and tip_id = "Some ''42''"]
  have 3: "onSubmit example_lib example_js (Date 0) (Response True ''OK'') (Some ''42'')
      example_page (example_form\<lparr>amount := Finite (5 / 2)\<rparr>) =
     Inl ''sat amount must be a whole value''"
    by (simp add: fraction)
  from onSubmit_preconditions [where l = example_lib and j = example_js and
      st = example_page_loading and data = example_form and now = "Date 0" and
      result = "Response True ''OK''" and tip_id = "Some ''42''"]
  have 4: "onSubmit example_lib example_js (Date 0) (Response True ''OK'') (Some ''42'')
      example_page_loading example_form = Inl ''Exchange rates not loaded''"
    by (simp add: loading)
  have unlisted_rate: "truthy_rate example_page_unlisted = None"
    by (simp add: truthy_rate_def watchedExchangeRate_def example_page_unlisted_def
          example_page_def example_form_def)
  have unlisted: "first_failure (preconditions example_lib example_js example_page_unlisted
      example_form) = Some ''Exchange rates not loaded''"
    by (simp add: preconditions_def unlisted_rate)
  from onSubmit_preconditions [where l = example_lib and j = example_js and
      st = example_page_unlisted and data = example_form and now = "Date 0" and
      result = "Response True ''OK''" and tip_id = "Some ''42''"]
  have 5: "onSubmit example_lib example_js (Date 0) (Response True ''OK'') (Some ''42'')
      example_page_unlisted example_form = Inl ''Exchange rates not loaded''"
    by (simp add: unlisted)
  from large 1 2 3 4 5 show ?thesis
    by (simp add: effects_def)
qed

text \<open>
  The specification words the first check as "the rate table is loaded". With a usable
  rate for the selected currency its list of checks is the one above.
\<close>

lemma preconditions_agree:
  assumes "truthy_rate st = Some rate"
  shows "spec_preconditions l j st data = preconditions l j st data"
proof -
  from assms have "watchedExchangeRate st = Some rate"
    by (auto simp: truthy_rate_def split: option.splits if_splits)
  with assms have "spec_satsAmount l st data = submitted_satsAmount l st data"
    and "exchangeRates st \<noteq> None"
    by (auto simp: spec_satsAmount_def submitted_satsAmount_def watchedExchangeRate_def
          split: option.splits)
  with assms show ?thesis
    by (simp add: spec_preconditions_def preconditions_def)
qed

text \<open>
  The two differ on a page whose table is loaded but does not list the selected currency:
  for an amount of one more than the maximum, in base-unit mode, the specification's
  first check holds and its first failure is "too large", whereas \<^verbatim>\<open>onSubmit\<close> throws
  "Exchange rates not loaded".
\<close>

theorem onSubmit_table_loaded_counterexample:
  "exchangeRates example_page_unlisted \<noteq> None \<and>
   first_failure (spec_preconditions example_lib example_js example_page_unlisted
      (example_form\<lparr>amount := Finite 1000001\<rparr>)) =
     Some ''Tip amount is too large. Please use a value no more than 1000000 satoshis'' \<and>
   onSubmit example_lib example_js (Date 0) (Response True ''OK'') (Some ''42'')
      example_page_unlisted (example_form\<lparr>amount := Finite 1000001\<rparr>) =
     Inl ''Exchange rates not loaded''"
proof -
  have max: "toString example_js (MAX_TIP_SATS example_lib) = ''1000000''"
    by (simp add: example_js_def example_lib_def unsigned_decimal_def nat_digits.simps)
  have mode: "inputMethod example_page_unlisted = sats"
    by (simp add: example_page_unlisted_def example_page_def)
  have loaded: "exchangeRates example_page_unlisted \<noteq> None"
    by (simp add: example_page_unlisted_def example_page_def)
  have idle: "\<not> isSubmitting example_page_unlisted"
    by (simp add: example_page_unlisted_def example_page_def)
  have no_rate: "truthy_rate example_page_unlisted = None"
    by (simp add: truthy_rate_def watchedExchangeRate_def example_page_unlisted_def
          example_page_def example_form_def)
  have spec: "first_failure (spec_preconditions example_lib example_js example_page_unlisted
      (example_form\<lparr>amount := Finite 1000001\<rparr>)) =
     Some ''Tip amount is too large. Please use a value no more than 1000000 satoshis''"
    by (simp add: spec_preconditions_def spec_satsAmount_def mode loaded idle max)
       (simp add: example_lib_def)
  have code: "onSubmit example_lib example_js (Date 0) (Response True ''OK'') (Some ''42'')
      example_page_unlisted (example_form\<lparr>amount := Finite 1000001\<rparr>) =
     Inl ''Exchange rates not loaded''"
    by (simp add: onSubmit_def no_rate)
  from loaded spec code show ?thesis by simp
qed

text \<open>What a call that did not throw has done.\<close>

lemma onSubmit_Inr:
  assumes "onSubmit l j now result tip_id st data = Inr acts"
  shows "acts = SetSubmitting True #
           submission l j now result tip_id (submitted_satsAmount l st data) data"
  using assms
  by (cases "truthy_rate st")
     (auto simp: onSubmit_def submitted_satsAmount_def Let_def split: if_splits)

text \<open>
  C5. A submission that passes the checks performs, on every outcome of the request,
  \<^verbatim>\<open>setSubmitting(true)\<close>, then the POST to the creation endpoint, then the effects
  \<open>mid\<close> of the outcome, then \<^verbatim>\<open>setSubmitting(false)\<close>: the flag is set when the
  request is made and clear at the end, which enables the submit button again, and
  \<open>mid\<close> neither makes a request nor writes the flag. For a response that is not
  \<^verbatim>\<open>ok\<close>, \<open>mid\<close> is the error toast with the status text. When fetch throws, or
  reading the body of an \<^verbatim>\<open>ok\<close> response throws, the error is logged and the
  generic error toast is shown. The page navigates (to the route of the created tip)
  exactly when the response is \<^verbatim>\<open>ok\<close> and its body was read.
\<close>

theorem submission_sequence:
  assumes "onSubmit l j now result tip_id st data = Inr acts"
  shows
    "\<exists>body mid.
       acts = SetSubmitting True # Fetch_POST ''/api/tipper/tips'' body # mid @ [SetSubmitting False] \<and>
       (\<forall>a\<in>set mid. \<not> is_request a \<and> a \<noteq> SetSubmitting True \<and> a \<noteq> SetSubmitting False) \<and>
       isSubmitting (foldl perform st (takeWhile (\<lambda>a. \<not> is_request a) acts)) \<and>
       \<not> isSubmitting (foldl perform st acts) \<and>
       (\<forall>statusText. result = Response False statusText \<longrightarrow>
          mid = [Toast_error (''Failed to create tip: '' @ statusText)]) \<and>
       (result = Rejected \<longrightarrow>
          mid = [Console_error, Toast_error ''Tip creation failed. Please try again.'']) \<and>
       (\<forall>statusText. result = Response True statusText \<and> tip_id = None \<longrightarrow>
          mid = [Toast_success ''Tip created'', Console_error,
                 Toast_error ''Tip creation failed. Please try again.'']) \<and>
       (\<forall>statusText i. result = Response True statusText \<and> tip_id = Some i \<longrightarrow>
          mid = [Toast_success ''Tip created'', Router_push (Routes_tips l @ ''/'' @ i)]) \<and>
       (filter is_navigation acts \<noteq> [] \<longleftrightarrow>
          (\<exists>statusText i. result = Response True statusText \<and> tip_id = Some i))"
proof -
  note acts = onSubmit_Inr [OF assms]
  show ?thesis
  proof (cases result)
    case Rejected
    then show ?thesis
      by (simp add: acts submission_def)
  next
    case (Response ok statusText)
    show ?thesis
    proof (cases ok)
      case False
      with Response show ?thesis
        by (simp add: acts submission_def)
    next
      case True
      with Response show ?thesis
        by (cases tip_id) (simp_all add: acts submission_def)
    qed
  qed
qed


text \<open>A submission of 5000 satoshis that the endpoint answers with "Bad Request".\<close>

theorem submission_sequence_witness:
  "onSubmit example_lib example_js (Date 0) (Response False ''Bad Request'') None
     example_page example_form =
     Inr [SetSubmitting True,
          Fetch_POST ''/api/tipper/tips''
            (JObject [(''amount'', JNumber 5000), (''currency'', JString ''USD''),
                      (''expiry'', JDate (Date 259200000)), (''tippeeName'', JString ''Hal''),
                      (''tippeeLocale'', JString ''en'')]),
          Toast_error ''Failed to create tip: Bad Request'',
          SetSubmitting False] \<and>
   \<not> isSubmitting (foldl perform example_page
     (effects (onSubmit example_lib example_js (Date 0) (Response False ''Bad Request'') None
        example_page example_form))) \<and>
   filter is_navigation
     (effects (onSubmit example_lib example_js (Date 0) (Response False ''Bad Request'') None
        example_page example_form)) = []"
proof -
  have rate: "truthy_rate example_page = Some (Finite (1 / 5000))"
    by (simp add: truthy_rate_def watchedExchangeRate_def example_page_def example_form_def)
  have run: "onSubmit example_lib example_js (Date 0) (Response False ''Bad Request'') None
     example_page example_form =
     Inr [SetSubmitting True,
          Fetch_POST ''/api/tipper/tips''
            (JObject [(''amount'', JNumber 5000), (''currency'', JString ''USD''),
                      (''expiry'', JDate (Date 259200000)), (''tippeeName'', JString ''Hal''),
                      (''tippeeLocale'', JString ''en'')]),
          Toast_error ''Failed to create tip: Bad Request'',
          SetSubmitting False]"
    by (simp add: onSubmit_def rate)
       (simp add: example_page_def example_lib_def example_form_def example_js_def
          strict_eq_def submission_def JSON_stringify_def createTipRequest_def nonempty_def
          optional_member_def)
  from submission_sequence [OF run] run show ?thesis
    by (simp add: effects_def)
qed

text \<open>
  C8. The one request of a submission that passes the checks is the POST to the creation
  endpoint, and in its body the member \<^verbatim>\<open>note\<close> (and likewise \<^verbatim>\<open>tippeeName\<close>) is
  present exactly when the form's field is a non-empty string, and is then that
  string; \<^verbatim>\<open>amount\<close> (the amount in base units), \<^verbatim>\<open>currency\<close>, \<^verbatim>\<open>expiry\<close> (now
  plus \<^verbatim>\<open>expiresIn\<close> of the chosen unit) and \<^verbatim>\<open>tippeeLocale\<close> are always present.
\<close>

theorem creation_request_body:
  assumes "onSubmit l j now result tip_id st data = Inr acts"
  shows
    "\<exists>body.
       filter is_request acts = [Fetch_POST ''/api/tipper/tips'' body] \<and>
       (''note'' \<in> set (member_keys body) \<longleftrightarrow> (\<exists>text. note data = Some text \<and> text \<noteq> [])) \<and>
       (''tippeeName'' \<in> set (member_keys body) \<longleftrightarrow>
          (\<exists>text. tippeeName data = Some text \<and> text \<noteq> [])) \<and>
       (\<forall>text. note data = Some text \<and> text \<noteq> [] \<longrightarrow>
          member_value body ''note'' = Some (JString text)) \<and>
       (\<forall>text. tippeeName data = Some text \<and> text \<noteq> [] \<longrightarrow>
          member_value body ''tippeeName'' = Some (JString text)) \<and>
       member_value body ''amount'' = Some (number_toJSON (submitted_satsAmount l st data)) \<and>
       member_value body ''currency'' = Some (JString (currency data)) \<and>
       member_value body ''expiry'' =
         Some (JDate (date_fns_add j now (expiryUnit data) (expiresIn data))) \<and>
       member_value body ''tippeeLocale'' = Some (JString (tippeeLocale data)) \<and>
       {''amount'', ''currency'', ''expiry'', ''tippeeLocale''} \<subseteq> set (member_keys body)"
proof -
  note acts = onSubmit_Inr [OF assms]
  have requests: "filter is_request acts =
      [Fetch_POST ''/api/tipper/tips''
         (JSON_stringify (createTipRequest j now (submitted_satsAmount l st data) data))]"
    by (simp add: acts submission_def split: fetch_result.splits option.splits)
  show ?thesis
    unfolding requests
    by (cases "note data"; cases "tippeeName data")
       (simp_all add: JSON_stringify_def createTipRequest_def nonempty_def optional_member_def)
qed

theorem creation_request_body_witness:
  "filter is_request
     (effects (onSubmit example_lib example_js (Date 0) (Response True ''OK'') (Some ''42'')
        example_page (example_form\<lparr>note := Some [], tippeeName := Some ''Hal''\<rparr>))) =
     [Fetch_POST ''/api/tipper/tips''
        (JObject [(''amount'', JNumber 5000), (''currency'', JString ''USD''),
                  (''expiry'', JDate (Date 259200000)), (''tippeeName'', JString ''Hal''),
                  (''tippeeLocale'', JString ''en'')])]"
proof -
  have rate: "truthy_rate example_page = Some (Finite (1 / 5000))"
    by (simp add: truthy_rate_def watchedExchangeRate_def example_page_def example_form_def)
  have run: "onSubmit example_lib example_js (Date 0) (Response True ''OK'') (Some ''42'')
      example_page (example_form\<lparr>note := Some [], tippeeName := Some ''Hal''\<rparr>) =
     Inr [SetSubmitting True,
          Fetch_POST ''/api/tipper/tips''
            (JObject [(''amount'', JNumber 5000), (''currency'', JString ''USD''),
                      (''expiry'', JDate (Date 259200000)), (''tippeeName'', JString ''Hal''),
                      (''tippeeLocale'', JString ''en'')]),
          Toast_success ''Tip created'',
          Router_push ''/tips/42'',
          SetSubmitting False]"
    by (simp add: onSubmit_def rate)
       (simp add: example_page_def example_lib_def example_form_def example_js_def
          strict_eq_def submission_def JSON_stringify_def createTipRequest_def nonempty_def
          optional_member_def)
  from creation_request_body [OF run] run show ?thesis
    by (simp add: effects_def)
qed

text \<open>
  C9. When the rate of the selected currency has not loaded, \<^verbatim>\<open>toggleInputMethod\<close>
  changes nothing: the page is as before, and so are the input mode, the amount's text
  and the numeric amount.
\<close>

theorem toggle_without_rate:
  assumes "watchedExchangeRate st = None"
  shows "toggleInputMethod l j st = st \<and>
         inputMethod (toggleInputMethod l j st) = inputMethod st \<and>
         amountString (form (toggleInputMethod l j st)) = amountString (form st) \<and>
         amount (form (toggleInputMethod l j st)) = amount (form st)"
  using assms by (simp add: toggleInputMethod_def truthy_rate_def)

text \<open>The toggle on a page without rates; with rates, the same page does change.\<close>

theorem toggle_without_rate_witness:
  "watchedExchangeRate example_page_loading = None \<and>
   toggleInputMethod example_lib example_js example_page_loading = example_page_loading \<and>
   inputMethod (toggleInputMethod example_lib example_js example_page) = fiat \<and>
   amountString (form (toggleInputMethod example_lib example_js example_page)) = ''1''"
proof -
  have none: "watchedExchangeRate example_page_loading = None"
    by (simp add: watchedExchangeRate_def example_page_loading_def)
  have rate: "truthy_rate example_page = Some (Finite (1 / 5000))"
    by (simp add: truthy_rate_def watchedExchangeRate_def example_page_def example_form_def)
  have loaded: "inputMethod (toggleInputMethod example_lib example_js example_page) = fiat \<and>
      amountString (form (toggleInputMethod example_lib example_js example_page)) = ''1''"
    by (simp add: toggleInputMethod_def rate)
       (simp add: example_page_def example_form_def example_lib_def example_js_def
          spec_getFiatAmount_def unsigned_decimal_def nat_digits.simps double_arith)
  from toggle_without_rate [OF none, of example_lib example_js] none loaded
  show ?thesis by simp
qed

text \<open>
  C10. When the amount's text changes to \<open>text\<close>, the numeric amount keeps its value if
  \<open>text\<close> parses to \<^verbatim>\<open>NaN\<close>, and becomes the parsed value otherwise: an infinite
  value too, since the guard is \<^verbatim>\<open>isNaN\<close> alone.
\<close>

theorem amount_follows_text:
  "(isNaN (parseFloat j text) \<longrightarrow>
      amount (form (change_amountString j text st)) = amount (form st)) \<and>
   (\<not> isNaN (parseFloat j text) \<longrightarrow>
      amount (form (change_amountString j text st)) = parseFloat j text) \<and>
   (parseFloat j text = PosInfinity \<longrightarrow>
      amount (form (change_amountString j text st)) = PosInfinity) \<and>
   amountString (form (change_amountString j text st)) = text"
  by (simp add: change_amountString_def useEffect_amountString_def Let_def)

text \<open>Letters and the empty text leave the amount at 5000; "Infinity" and "12.5" replace it.\<close>

theorem amount_follows_text_witness:
  "isNaN (parseFloat example_js ''abc'') \<and>
   amount (form (change_amountString example_js ''abc'' example_page)) = Finite 5000 \<and>
   isNaN (parseFloat example_js []) \<and>
   amount (form (change_amountString example_js [] example_page)) = Finite 5000 \<and>
   parseFloat example_js ''Infinity'' = PosInfinity \<and>
   amount (form (change_amountString example_js ''Infinity'' example_page)) = PosInfinity \<and>
   amount (form (change_amountString example_js ''12.5'' example_page)) = Finite (25 / 2)"
proof -
  have abc: "parseFloat example_js ''abc'' = NaN"
    by (simp add: example_js_def parse_decimal_def is_digit_def is_space_def)
  have empty: "parseFloat example_js [] = NaN"
    by (simp add: example_js_def parse_decimal_def is_digit_def is_space_def)
  have inf: "parseFloat example_js ''Infinity'' = PosInfinity"
    by (simp add: example_js_def parse_decimal_def is_digit_def is_space_def)
  have "to_double (25 / 2) = Finite (25 / 2)"
    by (simp add: double_arith)
  then have num: "parseFloat example_js ''12.5'' = Finite (25 / 2)"
    by (simp add: example_js_def parse_decimal_def is_digit_def is_space_def digits_value_def
          scale10_def exponent_part_def)
  have before: "amount (form example_page) = Finite 5000"
    by (simp add: example_page_def example_form_def)
  from amount_follows_text [of example_js "''abc''" example_page]
    amount_follows_text [of example_js "[]" example_page]
    amount_follows_text [of example_js "''Infinity''" example_page]
    amount_follows_text [of example_js "''12.5''" example_page]
    abc empty inf num before
  show ?thesis by simp
qed

section \<open>The new-tip page: the unit toggle\<close>









section \<open>The new-tip page: the fee\<close>

lemma round_whole: "\<lfloor>of_int m + (1::real) / 2\<rfloor> = m"
  by linarith

text \<open>
  Rounding the larger of a whole minimum and any number that is not \<^verbatim>\<open>NaN\<close> gives at
  least the minimum, whatever that number is.
\<close>

lemma fee_at_least_minimum:
  assumes "\<not> isNaN x"
  shows "\<not> isNaN (Math_round (Math_max (Finite (of_int m)) x)) \<and>
         num_le (Finite (of_int m)) (Math_round (Math_max (Finite (of_int m)) x))"
proof (cases x)
  case NaN
  with assms show ?thesis by simp
next
  case (Finite y)
  have "m \<le> \<lfloor>max (of_int m) y + (1::real) / 2\<rfloor>"
    by (rule le_floor_iff [THEN iffD2]) simp
  with Finite show ?thesis
    by (auto simp: Math_max_def num_le_def round_whole max_def split: if_splits)
next
  case PosInfinity
  then show ?thesis by (simp add: Math_max_def num_le_def)
next
  case NegInfinity
  then show ?thesis by (simp add: Math_max_def num_le_def round_whole)
qed

text \<open>
  C7. Take \<^verbatim>\<open>calculateFee\<close> as the specification gives it, a minimum fee that is a
  whole number of satoshis, and a page whose rate is loaded. Let \<open>baseAmount\<close> be the
  amount in base units (the form's amount, converted in fiat mode) and \<open>share\<close> the
  value of \<^verbatim>\<open>baseAmount * FEE_PERCENT / 100\<close>. When \<open>share\<close> is not \<^verbatim>\<open>NaN\<close>, which
  is so for every finite amount and percentage, the fee the page displays is
  \<^verbatim>\<open>max(MINIMUM_FEE_SATS, share)\<close> rounded to the nearest whole number, and it is at
  least \<^verbatim>\<open>MINIMUM_FEE_SATS\<close>.
\<close>

theorem displayed_fee:
  assumes fee: "calculateFee l = spec_calculateFee (MINIMUM_FEE_SATS l) (FEE_PERCENT l)"
    and minimum: "MINIMUM_FEE_SATS l = Finite (of_int m)"
    and rate: "truthy_rate st = Some rate"
    and base: "baseAmount =
      (if inputMethod st = fiat then getSatsAmount l (amount (form st)) rate
       else amount (form st))"
    and share: "share = num_divide (num_times baseAmount (FEE_PERCENT l)) (Finite 100)"
  shows
    "(\<not> isNaN share \<longrightarrow>
        displayedFee l st = Math_round (Math_max (MINIMUM_FEE_SATS l) share) \<and>
        num_le (MINIMUM_FEE_SATS l) (displayedFee l st)) \<and>
     (\<forall>b p. baseAmount = Finite b \<and> FEE_PERCENT l = Finite p \<longrightarrow> \<not> isNaN share)"
proof -
  have watched: "watchedAmountFee l st = Math_round (Math_max (MINIMUM_FEE_SATS l) share)"
    using base by (simp add: watchedAmountFee_def rate fee spec_calculateFee_def share)
  have "displayedFee l st = Math_round (Math_max (MINIMUM_FEE_SATS l) share) \<and>
        num_le (MINIMUM_FEE_SATS l) (displayedFee l st)" if "\<not> isNaN share"
    using fee_at_least_minimum [OF that, of m]
    by (simp add: displayedFee_def watched minimum)
  moreover have "\<not> isNaN share" if "baseAmount = Finite b" "FEE_PERCENT l = Finite p" for b p
    using that quotient_by_finite_not_NaN [OF finite_product_not_NaN, of 100 b p]
    by (simp add: share)
  ultimately show ?thesis by blast
qed

text \<open>One percent of 5000 satoshis is 50; of 120 satoshis, the minimum of 10 applies.\<close>

theorem displayed_fee_witness:
  "calculateFee example_lib =
     spec_calculateFee (MINIMUM_FEE_SATS example_lib) (FEE_PERCENT example_lib) \<and>
   MINIMUM_FEE_SATS example_lib = Finite (of_int 10) \<and>
   truthy_rate example_page = Some (Finite (1 / 5000)) \<and>
   displayedFee example_lib example_page = Finite 50 \<and>
   num_le (Finite 10) (displayedFee example_lib example_page) \<and>
   displayedFee example_lib (example_page\<lparr>form := example_form\<lparr>amount := Finite 120\<rparr>\<rparr>) = Finite 10"
proof -
  have fee: "calculateFee example_lib =
      spec_calculateFee (MINIMUM_FEE_SATS example_lib) (FEE_PERCENT example_lib)"
    by (simp add: example_lib_def)
  have minimum: "MINIMUM_FEE_SATS example_lib = Finite (of_int 10)"
    by (simp add: example_lib_def)
  have rate: "truthy_rate example_page = Some (Finite (1 / 5000))"
    by (simp add: truthy_rate_def watchedExchangeRate_def example_page_def example_form_def)
  have base: "Finite 5000 =
      (if inputMethod example_page = fiat
       then getSatsAmount example_lib (amount (form example_page)) (Finite (1 / 5000))
       else amount (form example_page))"
    by (simp add: example_page_def example_form_def)
  have share: "Finite 50 = num_divide (num_times (Finite 5000) (FEE_PERCENT example_lib)) (Finite 100)"
    by (simp add: example_lib_def double_arith)
  have small: "displayedFee example_lib
      (example_page\<lparr>form := example_form\<lparr>amount := Finite 120\<rparr>\<rparr>) = Finite 10"
    by (simp add: displayedFee_def watchedAmountFee_def truthy_rate_def watchedExchangeRate_def
          example_page_def example_form_def example_lib_def spec_calculateFee_def Math_max_def
          double_arith)
  from displayed_fee [OF fee minimum rate base share] fee minimum rate small
  show ?thesis
    by (simp add: Math_max_def example_lib_def num_le_def)
qed

end
